theory Spec2Isabelle
  imports Main
begin

section \<open>Data model\<close>

text \<open>
  The model follows the backend of the URL shortener: the service class \<open>UrlService\<close>
  (generateShortCode, createUrl, getUrlByShortCode, cacheUrl, invalidateUrlCache, updateUrl,
  deleteUrl), the Redis helpers of \<open>config/redis.js\<close>, the \<open>query\<close> wrapper of
  \<open>database/connection.js\<close>, the table definitions of the SQL schema, the redirect rate
  limiter, \<open>AnalyticsService.recordClick\<close>, the controller \<open>handleRedirect\<close> and the
  route \<open>POST /api/urls\<close> with its schema.

  A \<open>string\<close> is a list of characters; a character stands for one UTF-16 code unit below
  256, so that \<open>length\<close> is JavaScript's \<open>.length\<close> on such strings. Timestamps are
  milliseconds as integers. Identifiers (UUIDs) are strings.
\<close>

type_synonym timestamp = int

text \<open>A row of the table \<open>urls\<close>; a nullable column is an option.\<close>

record url_row =
  row_id :: string
  user_id :: "string option"
  original_url :: string
  short_code :: string
  custom_alias :: "string option"
  title :: "string option"
  description :: "string option"
  is_active :: "bool option"
  is_public :: "bool option"
  password_hash :: "string option"
  click_count :: int
  created_at :: timestamp
  updated_at :: timestamp
  expires_at :: "timestamp option"
  last_accessed :: "timestamp option"

text \<open>A row of the table \<open>url_clicks\<close>.\<close>

record click_row =
  click_id :: string
  url_id :: string
  ip_address :: "string option"
  user_agent :: string
  referer :: string
  country :: "string option"
  region :: "string option"
  city :: "string option"
  device_type :: string
  browser :: string
  os :: string
  is_bot :: bool
  clicked_at :: timestamp

text \<open>
  The object \<open>urlData\<close> that getUrlByShortCode builds and caches. The object literal of the
  source lists the properties below up to \<open>lastAccessed\<close> (and \<open>userEmail\<close>, which comes
  from the table of users and is not modelled); each field \<open>ud_x\<close> is the property \<open>x\<close>.
  \<open>passwordHash\<close> is the property that handleRedirect reads; \<open>None\<close> is JavaScript's
  \<open>undefined\<close>.
\<close>

record url_data =
  ud_id :: string
  ud_userId :: "string option"
  ud_originalUrl :: string
  ud_shortCode :: string
  ud_customAlias :: "string option"
  ud_title :: "string option"
  ud_description :: "string option"
  ud_isActive :: "bool option"
  ud_isPublic :: "bool option"
  ud_clickCount :: int
  ud_createdAt :: timestamp
  ud_updatedAt :: timestamp
  ud_expiresAt :: "timestamp option"
  ud_lastAccessed :: "timestamp option"
  ud_passwordHash :: "string option"

text \<open>
  What a key of the form \<open>url:...\<close> holds in Redis: the object cached by
  getUrlByShortCode, or the raw database row that createUrl hands to cacheUrl.
\<close>

datatype cached = CachedData url_data | CachedRow url_row

text \<open>Exceptions. \<open>AppError message statusCode\<close> is the class of the error handler.\<close>

datatype exn = AppError string nat | DbError | RedisError | LibError

text \<open>
  The responses of the redirect controller: 404, 410, 429 (sent by the limiter), 401 (password
  required or invalid), the JSON answer for bots, the JSON preview, the redirect 301, and 500.
\<close>

datatype response =
    NotFound
  | Deactivated
  | RateLimited
  | PasswordRequired
  | BotJson string
  | Preview string
  | Redirect string
  | ServerError

text \<open>
  What the process does on the path of a redirect, in the order in which it does it: a call of
  \<open>geoip.lookup\<close>, a call of \<open>useragent.parse\<close>, the sending of a response.
\<close>

datatype event = GeoLookup string | UserAgentParse string | Response response

text \<open>
  The input functions of the database server and the text that the driver sends for a date.
  The schema gives the types of the columns (BOOLEAN, TIMESTAMP WITH TIME ZONE, INET); which
  texts the server takes for a type is the server's business, so it is a parameter:
  \<open>None\<close> (or \<open>False\<close>) is a text that the server refuses.
\<close>

record engine =
  bool_in :: "string \<Rightarrow> bool option"
  timestamptz_in :: "string \<Rightarrow> timestamp option"
  inet_in :: "string \<Rightarrow> bool"
  date_text :: "timestamp \<Rightarrow> string"

text \<open>
  The state of the two backends. \<open>db_up\<close> and \<open>redis_up\<close> say whether a command sent to
  the backend succeeds or throws. \<open>db_queries\<close> counts the calls of \<open>query\<close>, \<open>pg\<close> is
  the database server. The keys \<open>url:...\<close> (JSON values) and the counters of the rate limiter
  live in the same Redis database under disjoint prefixes; they are kept in two maps. An entry
  carries the time at which it expires, if any. \<open>log\<close> lists the events of the redirect
  path so far, the latest last.
\<close>

record state =
  db_up :: bool
  db_queries :: nat
  pg :: engine
  log :: "event list"
  users :: "string list"
  urls :: "url_row list"
  url_clicks :: "click_row list"
  redis_up :: bool
  kv :: "string \<rightharpoonup> (cached \<times> timestamp option)"
  counters :: "string \<rightharpoonup> (int \<times> timestamp option)"

section \<open>JavaScript helpers\<close>

definition truthy :: "string option \<Rightarrow> bool" where
  \<comment> \<open>\<open>null\<close>, \<open>undefined\<close> and the empty string are falsy\<close>
  "truthy v = (case v of None \<Rightarrow> False | Some s \<Rightarrow> s \<noteq> [])"

definition or_else :: "string option \<Rightarrow> string option \<Rightarrow> string option" where
  \<comment> \<open>\<open>a || b\<close> on strings\<close>
  "or_else a b = (if truthy a then a else b)"

definition interp :: "string option \<Rightarrow> string" where
  \<comment> \<open>a value inside a template literal\<close>
  "interp v = (case v of None \<Rightarrow> ''undefined'' | Some s \<Rightarrow> s)"

definition toLowerCase_char :: "char \<Rightarrow> char" where
  "toLowerCase_char c =
     (let n = (of_char c :: nat) in if 65 \<le> n \<and> n \<le> 90 then char_of (n + 32) else c)"

definition toLowerCase :: "string \<Rightarrow> string" where
  "toLowerCase s = map toLowerCase_char s"

fun starts_with :: "string \<Rightarrow> string \<Rightarrow> bool" where
  "starts_with [] s = True"
| "starts_with (p # ps) [] = False"
| "starts_with (p # ps) (c # cs) = (p = c \<and> starts_with ps cs)"

fun str_includes :: "string \<Rightarrow> string \<Rightarrow> bool" where
  \<comment> \<open>\<open>s.includes(p)\<close>\<close>
  "str_includes [] p = (p = [])"
| "str_includes (c # cs) p = (starts_with p (c # cs) \<or> str_includes cs p)"

definition expired :: "timestamp \<Rightarrow> timestamp option \<Rightarrow> bool" where
  \<comment> \<open>a Redis key whose time to live has run out is gone\<close>
  "expired now e = (case e of None \<Rightarrow> False | Some t \<Rightarrow> t \<le> now)"

text \<open>
  The columns \<open>id\<close> and \<open>user_id\<close> have the type UUID. The server reads a UUID from 32
  hexadecimal digits, in upper or lower case, with an optional hyphen after any group of four
  digits but the last, and optional braces around the whole; two texts denote the same UUID
  when their digits agree. \<open>uuid_in\<close> gives the digits in lower case, or \<open>None\<close> for a
  text that is not a UUID.
\<close>

definition hex_digit :: "char \<Rightarrow> bool" where
  "hex_digit c =
     (let n = (of_char c :: nat)
      in (48 \<le> n \<and> n \<le> 57) \<or> (97 \<le> n \<and> n \<le> 102) \<or> (65 \<le> n \<and> n \<le> 70))"

fun uuid_groups :: "nat \<Rightarrow> string \<Rightarrow> string option" where
  "uuid_groups 0 s = (if s = [] then Some [] else None)"
| "uuid_groups (Suc k) (a # b # c # d # rest) =
     (if hex_digit a \<and> hex_digit b \<and> hex_digit c \<and> hex_digit d
      then (case uuid_groups k (if k \<noteq> 0 \<and> starts_with ''-'' rest then tl rest else rest) of
              None \<Rightarrow> None
            | Some digits \<Rightarrow> Some (toLowerCase [a, b, c, d] @ digits))
      else None)"
| "uuid_groups (Suc k) s = None"

definition uuid_in :: "string \<Rightarrow> string option" where
  "uuid_in s =
     (case s of
        [] \<Rightarrow> None
      | c # t \<Rightarrow>
          if c = CHR ''{''
          then (if t \<noteq> [] \<and> last t = CHR ''}'' then uuid_groups 8 (butlast t) else None)
          else uuid_groups 8 s)"

section \<open>config/redis.js\<close>

definition client_get :: "timestamp \<Rightarrow> state \<Rightarrow> string \<Rightarrow> exn + cached option" where
  "client_get now s key =
     (if \<not> redis_up s then Inl RedisError
      else case kv s key of
             None \<Rightarrow> Inr None
           | Some (v, e) \<Rightarrow> if expired now e then Inr None else Inr (Some v))"

definition redis_get :: "timestamp \<Rightarrow> state \<Rightarrow> string \<Rightarrow> cached option" where
  \<comment> \<open>\<open>get\<close>: the catch block logs and returns null\<close>
  "redis_get now s key = (case client_get now s key of Inl e \<Rightarrow> None | Inr v \<Rightarrow> v)"

definition redis_set :: "timestamp \<Rightarrow> state \<Rightarrow> string \<Rightarrow> cached \<Rightarrow> int \<Rightarrow> bool \<times> state" where
  \<comment> \<open>\<open>set\<close>: setEx with a time to live in seconds when \<open>ttl\<close> is truthy, set otherwise\<close>
  "redis_set now s key v ttl =
     (if \<not> redis_up s then (False, s)
      else (True, s\<lparr>kv := (kv s)(key \<mapsto> (v, if ttl \<noteq> 0 then Some (now + ttl * 1000) else None))\<rparr>))"

definition redis_del :: "timestamp \<Rightarrow> state \<Rightarrow> string \<Rightarrow> bool \<times> state" where
  "redis_del now s key =
     (if \<not> redis_up s then (False, s)
      else (case kv s key of
              None \<Rightarrow> (False, s)
            | Some (v, e) \<Rightarrow> (\<not> expired now e, s\<lparr>kv := (kv s)(key := None)\<rparr>)))"

definition redis_incr :: "timestamp \<Rightarrow> state \<Rightarrow> string \<Rightarrow> int \<Rightarrow> int option \<times> state" where
  \<comment> \<open>\<open>incr\<close>: the time to live is set when the counter has just been created\<close>
  "redis_incr now s key ttl =
     (if \<not> redis_up s then (None, s)
      else let (n, e) = (case counters s key of
                           None \<Rightarrow> (0, None)
                         | Some (n, e) \<Rightarrow> if expired now e then (0, None) else (n, e));
               result = n + 1;
               e' = (if ttl \<noteq> 0 \<and> result = 1 then Some (now + ttl * 1000) else e)
           in (Some result, s\<lparr>counters := (counters s)(key \<mapsto> (result, e'))\<rparr>))"

section \<open>database/connection.js and the schema\<close>

text \<open>
  \<open>query\<close> sends one statement. A statement is a function on the state that returns its
  rows and the new state, or fails on a constraint.
\<close>

definition query :: "(state \<Rightarrow> exn + ('a \<times> state)) \<Rightarrow> state \<Rightarrow> (exn + 'a) \<times> state" where
  "query stmt s =
     (let s1 = s\<lparr>db_queries := Suc (db_queries s)\<rparr>
      in if \<not> db_up s1 then (Inl DbError, s1)
         else case stmt s1 of
                Inl e \<Rightarrow> (Inl e, s1)
              | Inr (rows, s2) \<Rightarrow> (Inr rows, s2))"

definition select_alias :: "string \<Rightarrow> state \<Rightarrow> exn + (url_row list \<times> state)" where
  \<comment> \<open>SELECT id FROM urls WHERE short\_code = \$1 OR custom\_alias = \$1\<close>
  "select_alias a s =
     Inr (filter (\<lambda>r. short_code r = a \<or> custom_alias r = Some a) (urls s), s)"

definition select_code :: "string \<Rightarrow> state \<Rightarrow> exn + (url_row list \<times> state)" where
  \<comment> \<open>SELECT id FROM urls WHERE short\_code = \$1\<close>
  "select_code c s = Inr (filter (\<lambda>r. short_code r = c) (urls s), s)"

definition select_active :: "string \<Rightarrow> state \<Rightarrow> exn + (url_row list \<times> state)" where
  \<comment> \<open>SELECT u.* FROM urls u ... WHERE u.short\_code = \$1 AND u.is\_active = true\<close>
  "select_active c s =
     Inr (filter (\<lambda>r. short_code r = c \<and> is_active r = Some True) (urls s), s)"

section \<open>UrlService.generateShortCode\<close>

text \<open>
  The constructor reads three lengths from the environment of the process; the model takes
  their defaults.
\<close>

definition shortCodeLength :: nat where "shortCodeLength = 6"
definition customAliasMinLength :: nat where "customAliasMinLength = 3"
definition customAliasMaxLength :: nat where "customAliasMaxLength = 50"

definition alias_char :: "char \<Rightarrow> bool" where
  \<comment> \<open>the character class \<open>[a-zA-Z0-9_-]\<close>\<close>
  "alias_char c =
     (let n = (of_char c :: nat)
      in (97 \<le> n \<and> n \<le> 122) \<or> (65 \<le> n \<and> n \<le> 90) \<or> (48 \<le> n \<and> n \<le> 57)
         \<or> c = CHR ''_'' \<or> c = CHR ''-'')"

definition alias_regex :: "string \<Rightarrow> bool" where
  \<comment> \<open>\<open>/^[a-zA-Z0-9_-]+$/.test(s)\<close>\<close>
  "alias_regex s = (s \<noteq> [] \<and> list_all alias_char s)"

definition rethrow :: "string \<Rightarrow> (exn + 'a) \<times> state \<Rightarrow> (exn + 'a) \<times> state" where
  \<comment> \<open>\<open>catch (error) { if (error instanceof AppError) throw error; throw new AppError(msg, 500) }\<close>\<close>
  "rethrow msg r =
     (case r of
        (Inl (AppError m c), s) \<Rightarrow> (Inl (AppError m c), s)
      | (Inl _, s) \<Rightarrow> (Inl (AppError msg 500), s)
      | (Inr v, s) \<Rightarrow> (Inr v, s))"

text \<open>
  The loop that draws random codes. \<open>nanoid\<close> is the source of randomness:
  \<open>nanoid n i\<close> is the result of the \<open>i\<close>-th call, made with size \<open>n\<close>. The second
  argument of the loop is \<open>i\<close>, the third counts the draws that remain.
\<close>

fun random_code ::
  "(nat \<Rightarrow> nat \<Rightarrow> string) \<Rightarrow> nat \<Rightarrow> nat \<Rightarrow> state \<Rightarrow> (exn + string) \<times> state" where
  "random_code nanoid i 0 s =
     (Inl (AppError ''Unable to generate unique short code, please try again'' 500), s)"
| "random_code nanoid i (Suc k) s =
     (let shortCode = nanoid shortCodeLength i
      in case query (select_code shortCode) s of
           (Inl e, s1) \<Rightarrow> (Inl e, s1)
         | (Inr existing, s1) \<Rightarrow>
             if existing = [] then (Inr shortCode, s1) else random_code nanoid (Suc i) k s1)"

definition generateShortCode ::
  "(nat \<Rightarrow> nat \<Rightarrow> string) \<Rightarrow> state \<Rightarrow> string option \<Rightarrow> nat \<Rightarrow> (exn + string) \<times> state" where
  "generateShortCode nanoid s customAlias retries =
     rethrow ''Failed to generate short code''
       (case customAlias of
          None \<Rightarrow> random_code nanoid 0 retries s
        | Some a \<Rightarrow>
            if a = [] then random_code nanoid 0 retries s
            else if length a < customAliasMinLength \<or> length a > customAliasMaxLength
            then (Inl (AppError ''Custom alias must be between 3 and 50 characters'' 400), s)
            else if \<not> alias_regex a
            then (Inl (AppError
                    ''Custom alias can only contain letters, numbers, hyphens, and underscores'' 400), s)
            else (case query (select_alias a) s of
                    (Inl e, s1) \<Rightarrow> (Inl e, s1)
                  | (Inr existing, s1) \<Rightarrow>
                      if existing \<noteq> [] then (Inl (AppError ''Custom alias is already taken'' 409), s1)
                      else (Inr a, s1)))"

section \<open>The environment\<close>

text \<open>
  Configuration read from \<open>process.env\<close> and the libraries that the services call:
  the URL parser (protocol and hostname, \<open>None\<close> when \<open>new URL\<close> throws), Joi's test for
  a URI with scheme http or https, geoip-lite,
  useragent (the families of the browser and of the operating system), bcryptjs, nanoid, and
  the generator of UUIDs of the database (indexed by the number of queries sent so far).
  A library call that throws returns \<open>Inl\<close>.
\<close>

record env =
  production :: bool
  URL_parse :: "string \<Rightarrow> (string \<times> string) option"
  joi_uri :: "string \<Rightarrow> bool"
  enableGeolocation :: bool
  enableUserAgentParsing :: bool
  geoip_lookup :: "string \<Rightarrow> exn + (string option \<times> string option \<times> string option) option"
  useragent_parse :: "string \<Rightarrow> exn + (string option \<times> string option)"
  bcrypt_compare :: "string \<Rightarrow> string \<Rightarrow> exn + bool"
  nanoid :: "nat \<Rightarrow> nat \<Rightarrow> string"
  uuid_generate_v4 :: "nat \<Rightarrow> string"

section \<open>UrlService: validateUrl, createUrl, caching\<close>

definition validateUrl :: "env \<Rightarrow> string \<Rightarrow> exn + bool" where
  "validateUrl env url =
     (case URL_parse env url of
        None \<Rightarrow> Inl (AppError ''Invalid URL format'' 400)
      | Some (protocol, hostname) \<Rightarrow>
          if protocol \<noteq> ''http:'' \<and> protocol \<noteq> ''https:''
          then Inl (AppError ''URL must use HTTP or HTTPS protocol'' 400)
          else if production env \<and> (hostname = ''localhost'' \<or> hostname = ''127.0.0.1'')
          then Inl (AppError ''Localhost URLs are not allowed in production'' 400)
          else if length url > 2048
          then Inl (AppError ''URL is too long (maximum 2048 characters)'' 400)
          else Inr True)"

definition cache_key :: "cached \<Rightarrow> string" where
  \<comment> \<open>the template \<open>url:${url.shortCode}\<close>; a database row has no property \<open>shortCode\<close>\<close>
  "cache_key v = (case v of CachedData d \<Rightarrow> ''url:'' @ ud_shortCode d
                          | CachedRow r \<Rightarrow> ''url:'' @ interp None)"

definition cacheUrl :: "timestamp \<Rightarrow> state \<Rightarrow> cached \<Rightarrow> state" where
  \<comment> \<open>the default time to live is 3600 seconds\<close>
  "cacheUrl now s url = snd (redis_set now s (cache_key url) url 3600)"

definition invalidateUrlCache :: "timestamp \<Rightarrow> state \<Rightarrow> string \<Rightarrow> state" where
  "invalidateUrlCache now s code = snd (redis_del now s (''url:'' @ code))"

text \<open>The argument of createUrl; \<open>None\<close> is an absent property.\<close>

record create_data =
  d_originalUrl :: string
  d_customAlias :: "string option"
  d_userId :: "string option"
  d_title :: "string option"
  d_description :: "string option"
  d_expiresAt :: "timestamp option"
  d_isPublic :: "bool option"

definition url_check :: "string \<Rightarrow> bool" where
  \<comment> \<open>the constraint \<open>original_url ~* '^https?://'\<close>\<close>
  "url_check u = (starts_with ''http://'' (toLowerCase u) \<or> starts_with ''https://'' (toLowerCase u))"

definition insert_url :: "url_row \<Rightarrow> state \<Rightarrow> exn + (url_row list \<times> state)" where
  \<comment> \<open>INSERT INTO urls ... RETURNING *, with the constraints of the schema: primary key,
      foreign key to users, unique short code, the lengths of the VARCHAR columns, the checks\<close>
  "insert_url r s =
     (if row_id r \<in> set (map row_id (urls s))
         \<or> (case user_id r of None \<Rightarrow> False | Some u \<Rightarrow> u \<notin> set (users s))
         \<or> short_code r \<in> set (map short_code (urls s))
         \<or> length (short_code r) > 50 \<or> length (short_code r) < 3
         \<or> (case custom_alias r of None \<Rightarrow> False | Some a \<Rightarrow> length a > 100 \<or> length a < 3)
         \<or> (case title r of None \<Rightarrow> False | Some t \<Rightarrow> length t > 500)
         \<or> \<not> url_check (original_url r)
      then Inl DbError
      else Inr ([r], s\<lparr>urls := urls s @ [r]\<rparr>))"

text \<open>
  createUrl inserts the row, hands the inserted row to cacheUrl and returns an object with the
  columns of the row under other names; the model returns the row. The metadata of the URL
  are always null, so a missing title or description becomes null.
\<close>

definition createUrl :: "env \<Rightarrow> timestamp \<Rightarrow> state \<Rightarrow> create_data \<Rightarrow> (exn + url_row) \<times> state" where
  "createUrl env now s data =
     rethrow ''Failed to create short URL''
       (case validateUrl env (d_originalUrl data) of
          Inl e \<Rightarrow> (Inl e, s)
        | Inr _ \<Rightarrow>
           (case generateShortCode (nanoid env) s (d_customAlias data) 5 of
              (Inl e, s1) \<Rightarrow> (Inl e, s1)
            | (Inr code, s1) \<Rightarrow>
               (let (urlTitle, urlDescription) =
                      (if \<not> truthy (d_title data) \<or> \<not> truthy (d_description data)
                       then (or_else (d_title data) None, or_else (d_description data) None)
                       else (d_title data, d_description data));
                    r = \<lparr>row_id = uuid_generate_v4 env (db_queries s1),
                         user_id = or_else (d_userId data) None,
                         original_url = d_originalUrl data,
                         short_code = code,
                         custom_alias = d_customAlias data,
                         title = urlTitle,
                         description = urlDescription,
                         is_active = Some True,
                         is_public = (case d_isPublic data of None \<Rightarrow> Some True | Some b \<Rightarrow> Some b),
                         password_hash = None,
                         click_count = 0,
                         created_at = now,
                         updated_at = now,
                         expires_at = d_expiresAt data,
                         last_accessed = None\<rparr>
                in case query (insert_url r) s1 of
                     (Inl e, s2) \<Rightarrow> (Inl e, s2)
                   | (Inr rows, s2) \<Rightarrow>
                       (case rows of
                          [] \<Rightarrow> (Inl LibError, s2)
                        | url # _ \<Rightarrow> (Inr url, cacheUrl now s2 (CachedRow url))))))"

section \<open>UrlService.getUrlByShortCode\<close>

definition to_urlData :: "url_row \<Rightarrow> url_data" where
  \<comment> \<open>the object literal \<open>urlData\<close>; it sets no property \<open>passwordHash\<close>\<close>
  "to_urlData url =
     \<lparr>ud_id = row_id url,
      ud_userId = user_id url,
      ud_originalUrl = original_url url,
      ud_shortCode = short_code url,
      ud_customAlias = custom_alias url,
      ud_title = title url,
      ud_description = description url,
      ud_isActive = is_active url,
      ud_isPublic = is_public url,
      ud_clickCount = click_count url,
      ud_createdAt = created_at url,
      ud_updatedAt = updated_at url,
      ud_expiresAt = expires_at url,
      ud_lastAccessed = last_accessed url,
      ud_passwordHash = None\<rparr>"

definition getUrlByShortCode ::
  "timestamp \<Rightarrow> state \<Rightarrow> string \<Rightarrow> (exn + cached option) \<times> state" where
  \<comment> \<open>the catch block turns every error into \<open>AppError('Failed to retrieve URL', 500)\<close>\<close>
  "getUrlByShortCode now s code =
     (case redis_get now s (''url:'' @ code) of
        Some c \<Rightarrow> (Inr (Some c), s)
      | None \<Rightarrow>
         (case query (select_active code) s of
            (Inl e, s1) \<Rightarrow> (Inl (AppError ''Failed to retrieve URL'' 500), s1)
          | (Inr rows, s1) \<Rightarrow>
             (case rows of
                [] \<Rightarrow> (Inr None, s1)
              | url # _ \<Rightarrow>
                 if (case expires_at url of None \<Rightarrow> False | Some e \<Rightarrow> e < now)
                 then (Inr None, s1)
                 else (Inr (Some (CachedData (to_urlData url))),
                       cacheUrl now s1 (CachedData (to_urlData url))))))"

section \<open>UrlService.updateUrl and deleteUrl\<close>

text \<open>
  The values of the properties of \<open>updates\<close>. The object is the list of its entries, in the
  order of \<open>Object.entries\<close>.
\<close>

datatype jsval = JString string | JBoolean bool | JDate timestamp | JNull

definition allowedUpdates :: "string list" where
  "allowedUpdates = [''title'', ''description'', ''is_active'', ''is_public'', ''expires_at'']"

definition param_text :: "engine \<Rightarrow> jsval \<Rightarrow> string option" where
  \<comment> \<open>the text that the driver sends for a parameter; \<open>None\<close> is NULL\<close>
  "param_text e v =
     (case v of
        JString t \<Rightarrow> Some t
      | JBoolean b \<Rightarrow> Some (if b then ''true'' else ''false'')
      | JDate d \<Rightarrow> Some (date_text e d)
      | JNull \<Rightarrow> None)"

definition column_accepts :: "engine \<Rightarrow> string \<Rightarrow> jsval \<Rightarrow> bool" where
  \<comment> \<open>whether the server takes the text of the parameter for the column: a title of at
      most 500 characters, any description, a text that the server reads as a boolean or as
      a timestamp; NULL for every column\<close>
  "column_accepts e key v =
     (case param_text e v of
        None \<Rightarrow> True
      | Some t \<Rightarrow>
          if key = ''title'' then length t \<le> 500
          else if key = ''description'' then True
          else if key = ''is_active'' \<or> key = ''is_public'' then bool_in e t \<noteq> None
          else if key = ''expires_at'' then timestamptz_in e t \<noteq> None
          else False)"

definition set_column :: "engine \<Rightarrow> string \<Rightarrow> jsval \<Rightarrow> url_row \<Rightarrow> url_row" where
  "set_column e key v r =
     (if key = ''title'' then r\<lparr>title := param_text e v\<rparr>
      else if key = ''description'' then r\<lparr>description := param_text e v\<rparr>
      else if key = ''is_active''
        then r\<lparr>is_active := (case param_text e v of None \<Rightarrow> None | Some t \<Rightarrow> bool_in e t)\<rparr>
      else if key = ''is_public''
        then r\<lparr>is_public := (case param_text e v of None \<Rightarrow> None | Some t \<Rightarrow> bool_in e t)\<rparr>
      else if key = ''expires_at''
        then r\<lparr>expires_at := (case param_text e v of None \<Rightarrow> None | Some t \<Rightarrow> timestamptz_in e t)\<rparr>
      else r)"

definition owned_by :: "string \<Rightarrow> string option \<Rightarrow> url_row \<Rightarrow> bool" where
  \<comment> \<open>\<open>WHERE id = $1 AND user_id = $2\<close> on the columns of type UUID: both parameters are
      UUIDs, the row has the same id and the same user; a comparison with NULL is never true\<close>
  "owned_by urlId userId r =
     (uuid_in urlId \<noteq> None \<and> uuid_in (row_id r) = uuid_in urlId
      \<and> (case userId of
             None \<Rightarrow> False
           | Some u \<Rightarrow>
               uuid_in u \<noteq> None
               \<and> (case user_id r of None \<Rightarrow> False | Some owner \<Rightarrow> uuid_in owner = uuid_in u)))"

definition uuid_params :: "string \<Rightarrow> string option \<Rightarrow> bool" where
  \<comment> \<open>whether the server takes the two parameters of the WHERE clause: the id is a UUID,
      the user is a UUID or NULL\<close>
  "uuid_params urlId userId =
     (uuid_in urlId \<noteq> None \<and> (case userId of None \<Rightarrow> True | Some u \<Rightarrow> uuid_in u \<noteq> None))"

definition update_url ::
  "timestamp \<Rightarrow> (string \<times> jsval) list \<Rightarrow> string \<Rightarrow> string option \<Rightarrow> state
     \<Rightarrow> exn + (url_row list \<times> state)" where
  \<comment> \<open>UPDATE urls SET ..., updated\_at = CURRENT\_TIMESTAMP WHERE id = .. AND user\_id = ..
      RETURNING *. The statement is rejected when a column is assigned twice or the server
      does not take a parameter.\<close>
  "update_url now assignments urlId userId s =
     (if \<not> distinct (map fst assignments)
         \<or> \<not> list_all (\<lambda>(k, v). column_accepts (pg s) k v) assignments
         \<or> \<not> uuid_params urlId userId
      then Inl DbError
      else let upd = (\<lambda>r. if owned_by urlId userId r
                           then (fold (\<lambda>(k, v). set_column (pg s) k v) assignments r)\<lparr>updated_at := now\<rparr>
                           else r)
           in Inr (map upd (filter (owned_by urlId userId) (urls s)),
                   s\<lparr>urls := map upd (urls s)\<rparr>))"

text \<open>
  updateUrl keeps the entries of \<open>updates\<close> whose key is in \<open>allowedUpdates\<close>, refuses a
  patch without such an entry before it sends the statement, and returns the first row of
  the statement (the model returns the row, the source an object with its columns).
\<close>

definition updateUrl ::
  "timestamp \<Rightarrow> state \<Rightarrow> string \<Rightarrow> string option \<Rightarrow> (string \<times> jsval) list
     \<Rightarrow> (exn + url_row) \<times> state" where
  "updateUrl now s urlId userId updates =
     rethrow ''Failed to update URL''
       (let updateFields = filter (\<lambda>(key, v). key \<in> set allowedUpdates) updates
        in if updateFields = [] then (Inl (AppError ''No valid fields to update'' 400), s)
           else case query (update_url now updateFields urlId userId) s of
                  (Inl e, s1) \<Rightarrow> (Inl e, s1)
                | (Inr rows, s1) \<Rightarrow>
                    (case rows of
                       [] \<Rightarrow> (Inl (AppError ''URL not found or access denied'' 404), s1)
                     | url # _ \<Rightarrow> (Inr url, invalidateUrlCache now s1 (short_code url))))"

definition delete_url :: "string \<Rightarrow> string option \<Rightarrow> state \<Rightarrow> exn + (url_row list \<times> state)" where
  \<comment> \<open>DELETE FROM urls WHERE id = \$1 AND user\_id = \$2 RETURNING short\_code; the clicks of
      a deleted row go with it (ON DELETE CASCADE). The statement is rejected when the server
      does not take a parameter.\<close>
  "delete_url urlId userId s =
     (let gone = filter (owned_by urlId userId) (urls s)
      in if \<not> uuid_params urlId userId then Inl DbError
         else
         Inr (gone,
              s\<lparr>urls := filter (\<lambda>r. \<not> owned_by urlId userId r) (urls s),
                url_clicks := filter (\<lambda>c. url_id c \<notin> set (map row_id gone)) (url_clicks s)\<rparr>))"

definition deleteUrl :: "timestamp \<Rightarrow> state \<Rightarrow> string \<Rightarrow> string option \<Rightarrow> (exn + bool) \<times> state" where
  "deleteUrl now s urlId userId =
     rethrow ''Failed to delete URL''
       (case query (delete_url urlId userId) s of
          (Inl e, s1) \<Rightarrow> (Inl e, s1)
        | (Inr rows, s1) \<Rightarrow>
            (case rows of
               [] \<Rightarrow> (Inl (AppError ''URL not found or access denied'' 404), s1)
             | url # _ \<Rightarrow> (Inr True, invalidateUrlCache now s1 (short_code url))))"

section \<open>AnalyticsService\<close>

text \<open>The parts of an Express request that the redirect path reads.\<close>

record request =
  param_shortCode :: string
  req_ip :: "string option"
  req_user :: "string option"
  h_user_agent :: "string option"
  h_referer :: "string option"
  h_referrer :: "string option"
  q_preview :: "string option"
  q_password :: "string option"
  h_x_url_password :: "string option"

definition or_empty :: "string option \<Rightarrow> string" where
  \<comment> \<open>\<open>v || ''\<close>\<close>
  "or_empty v = (case v of None \<Rightarrow> [] | Some s \<Rightarrow> s)"

definition or_unknown :: "string option \<Rightarrow> string" where
  \<comment> \<open>\<open>v || 'unknown'\<close>\<close>
  "or_unknown v = (if truthy v then or_empty v else ''unknown'')"

definition detectDeviceType :: "string \<Rightarrow> string" where
  "detectDeviceType userAgent =
     (let ua = toLowerCase userAgent
      in if str_includes ua ''mobile'' \<or> str_includes ua ''android'' \<or> str_includes ua ''iphone''
         then ''mobile''
         else if str_includes ua ''tablet'' \<or> str_includes ua ''ipad'' then ''tablet''
         else if str_includes ua ''smart-tv'' \<or> str_includes ua ''tv'' then ''tv''
         else ''desktop'')"

definition botPatterns :: "string list" where
  "botPatterns =
     [''bot'', ''crawler'', ''spider'', ''scraper'', ''curl'', ''wget'', ''python'',
      ''googlebot'', ''bingbot'', ''slurp'', ''duckduckbot'', ''baiduspider'',
      ''yandexbot'', ''facebookexternalhit'', ''twitterbot'', ''linkedinbot'']"

definition detectBot :: "string \<Rightarrow> bool" where
  "detectBot userAgent = list_ex (str_includes (toLowerCase userAgent)) botPatterns"

definition fits :: "nat \<Rightarrow> string option \<Rightarrow> bool" where
  \<comment> \<open>a value for a column \<open>VARCHAR(n)\<close>\<close>
  "fits n v = (case v of None \<Rightarrow> True | Some t \<Rightarrow> length t \<le> n)"

definition insert_click :: "timestamp \<Rightarrow> click_row \<Rightarrow> state \<Rightarrow> exn + (click_row list \<times> state)" where
  \<comment> \<open>INSERT INTO url\_clicks ... RETURNING id, clicked\_at, with the primary key, the
      foreign key to urls, the type INET of the address and the lengths of the VARCHAR
      columns. The trigger \<open>increment_url_clicks\<close> then bumps the counter of the URL, a
      column of type INTEGER, and the trigger on updates of urls sets \<open>updated_at\<close>; an
      overflow of the counter fails the statement.\<close>
  "insert_click now c s =
     (if click_id c \<in> set (map click_id (url_clicks s))
         \<or> url_id c \<notin> set (map row_id (urls s))
         \<or> (case ip_address c of None \<Rightarrow> False | Some a \<Rightarrow> \<not> inet_in (pg s) a)
         \<or> \<not> fits 2 (country c) \<or> \<not> fits 100 (region c) \<or> \<not> fits 100 (city c)
         \<or> length (device_type c) > 50 \<or> length (browser c) > 50 \<or> length (os c) > 50
         \<or> list_ex (\<lambda>r. row_id r = url_id c \<and> click_count r + 1 > 2147483647) (urls s)
      then Inl DbError
      else Inr ([c],
                s\<lparr>url_clicks := url_clicks s @ [c],
                  urls := map (\<lambda>r. if row_id r = url_id c
                                     then r\<lparr>click_count := click_count r + 1,
                                            last_accessed := Some now,
                                            updated_at := now\<rparr>
                                     else r) (urls s)\<rparr>))"

definition req_get_referer :: "request \<Rightarrow> string option" where
  \<comment> \<open>Express answers \<open>req.get('Referer')\<close> and \<open>req.get('Referrer')\<close> alike, with
      \<open>headers.referrer || headers.referer\<close>\<close>
  "req_get_referer req = or_else (h_referrer req) (h_referer req)"

text \<open>
  recordClick is an asynchronous function. What it does before its first \<open>await\<close> runs inside
  the call: reading the request, the geolocation lookup and the parsing of the user agent,
  both calls of synchronous libraries. \<open>recordClick_sync\<close> is this part: the events in
  their order, and either the exception thrown or the values for the row (address, user
  agent, referer; country, region, city; device type, browser, system, bot flag).
\<close>

type_synonym click_values =
  "(string option \<times> string \<times> string) \<times> (string option \<times> string option \<times> string option)
     \<times> (string \<times> string \<times> string \<times> bool)"

definition recordClick_sync :: "env \<Rightarrow> request \<Rightarrow> event list \<times> (exn + click_values)" where
  "recordClick_sync env req =
     (let ipAddress = req_ip req;
          userAgent = or_empty (h_user_agent req);
          refererText = or_empty (or_else (req_get_referer req) (req_get_referer req));
          geo_on = (enableGeolocation env \<and> truthy ipAddress
                    \<and> ipAddress \<noteq> Some ''127.0.0.1'' \<and> ipAddress \<noteq> Some ''::1'');
          geo_events = (if geo_on then [GeoLookup (or_empty ipAddress)] else [])
      in case (if geo_on
               then (case geoip_lookup env (or_empty ipAddress) of
                       Inl e \<Rightarrow> Inl e
                     | Inr None \<Rightarrow> Inr (None, None, None)
                     | Inr (Some geo) \<Rightarrow> Inr geo)
               else Inr (None, None, None)) of
           Inl e \<Rightarrow> (geo_events, Inl e)
         | Inr geoData \<Rightarrow>
            if enableUserAgentParsing env \<and> userAgent \<noteq> []
            then (geo_events @ [UserAgentParse userAgent],
                  case useragent_parse env userAgent of
                    Inl e \<Rightarrow> Inl e
                  | Inr (family, os_family) \<Rightarrow>
                      Inr ((ipAddress, userAgent, refererText), geoData,
                           (detectDeviceType userAgent, or_unknown family,
                            or_unknown os_family, detectBot userAgent)))
            else (geo_events,
                  Inr ((ipAddress, userAgent, refererText), geoData,
                       (''unknown'', ''unknown'', ''unknown'', False))))"

definition recordClick_insert ::
  "env \<Rightarrow> timestamp \<Rightarrow> state \<Rightarrow> string \<Rightarrow> click_values \<Rightarrow> (exn + string) \<times> state" where
  \<comment> \<open>the rest of the try block, from \<open>await query\<close> on\<close>
  "recordClick_insert env now s urlId values =
     (case values of
        ((ipAddress, userAgent, refererText), (geo_country, geo_region, geo_city),
         (deviceType, agent_browser, agent_os, isBot)) \<Rightarrow>
          (case query (insert_click now
                  \<lparr>click_id = uuid_generate_v4 env (db_queries s),
                   url_id = urlId,
                   ip_address = ipAddress,
                   user_agent = userAgent,
                   referer = refererText,
                   country = geo_country,
                   region = geo_region,
                   city = geo_city,
                   device_type = deviceType,
                   browser = agent_browser,
                   os = agent_os,
                   is_bot = isBot,
                   clicked_at = now\<rparr>) s of
             (Inl e, s1) \<Rightarrow> (Inl e, s1)
           | (Inr rows, s1) \<Rightarrow>
               (case rows of
                  [] \<Rightarrow> (Inl LibError, s1)
                | c # _ \<Rightarrow> (Inr (click_id c), s1))))"

definition recordClick_await ::
  "env \<Rightarrow> timestamp \<Rightarrow> state \<Rightarrow> string \<Rightarrow> request \<Rightarrow> (exn + string option) \<times> state" where
  \<comment> \<open>how the promise of a started call settles: \<open>Inr\<close> when it resolves (with the id of
      the click, or with null from the catch block), \<open>Inl\<close> when it rejects\<close>
  "recordClick_await env now s urlId req =
     (case snd (recordClick_sync env req) of
        Inl e \<Rightarrow> (Inr None, s)
      | Inr values \<Rightarrow>
          (case recordClick_insert env now s urlId values of
             (Inl e, s1) \<Rightarrow> (Inr None, s1)
           | (Inr clickId, s1) \<Rightarrow> (Inr (Some clickId), s1)))"

definition recordClick_call :: "env \<Rightarrow> state \<Rightarrow> request \<Rightarrow> state" where
  \<comment> \<open>the call itself: the synchronous part runs\<close>
  "recordClick_call env s req = s\<lparr>log := log s @ fst (recordClick_sync env req)\<rparr>"

definition recordClick ::
  "env \<Rightarrow> timestamp \<Rightarrow> state \<Rightarrow> string \<Rightarrow> request \<Rightarrow> (exn + string option) \<times> state" where
  \<comment> \<open>a call of recordClick together with the settling of its promise\<close>
  "recordClick env now s urlId req =
     recordClick_await env now (recordClick_call env s req) urlId req"

section \<open>The redirect rate limiter\<close>

definition redirectLimiter :: "timestamp \<Rightarrow> state \<Rightarrow> request \<Rightarrow> bool \<times> state" where
  \<comment> \<open>\<open>True\<close>: the limiter has answered 429 and does not call \<open>next\<close>. A failed \<open>incr\<close>
      returns null, and \<open>null > 1000\<close> is false.\<close>
  "redirectLimiter now s req =
     (let clientKey = (case req_user req of
                         Some u \<Rightarrow> ''redirect:user:'' @ u
                       | None \<Rightarrow> ''redirect:ip:'' @ interp (req_ip req));
          urlKey = ''redirect:url:'' @ param_shortCode req @ '':'' @ interp (req_ip req);
          (clientCount, s1) = redis_incr now s clientKey 3600
      in if (case clientCount of None \<Rightarrow> False | Some n \<Rightarrow> n > 1000) then (True, s1)
         else let (urlCount, s2) = redis_incr now s1 urlKey 60
              in if (case urlCount of None \<Rightarrow> False | Some n \<Rightarrow> n > 10) then (True, s2)
                 else (False, s2))"

section \<open>The controller handleRedirect\<close>

definition send :: "response \<Rightarrow> state \<Rightarrow> state" where
  \<comment> \<open>\<open>res.status(..).json(..)\<close>, \<open>res.json(..)\<close> or \<open>res.redirect(..)\<close>\<close>
  "send res s = s\<lparr>log := log s @ [Response res]\<rparr>"

text \<open>
  handleRedirect returns the response, the state in which it has sent it, and the call of
  recordClick that it has started without awaiting it, if any. The synchronous part of that
  call has run when the controller goes on to the checks for bots, previews and passwords;
  its promise is still pending. A cached database row has no property \<open>isActive\<close>. Every
  error caught by the controller has a \<open>status\<close> other than 429, so the answer is 500.
\<close>

definition handleRedirect ::
  "env \<Rightarrow> timestamp \<Rightarrow> state \<Rightarrow> request \<Rightarrow> response \<times> state \<times> (string \<times> request) option" where
  "handleRedirect env now s req =
     (let (limited, s1) = redirectLimiter now s req
      in if limited then (RateLimited, send RateLimited s1, None)
         else case getUrlByShortCode now s1 (param_shortCode req) of
                (Inl e, s2) \<Rightarrow> (ServerError, send ServerError s2, None)
              | (Inr None, s2) \<Rightarrow> (NotFound, send NotFound s2, None)
              | (Inr (Some (CachedRow r)), s2) \<Rightarrow> (Deactivated, send Deactivated s2, None)
              | (Inr (Some (CachedData urlData)), s2) \<Rightarrow>
                  if ud_isActive urlData \<noteq> Some True then (Deactivated, send Deactivated s2, None)
                  else let s3 = recordClick_call env s2 req;
                           click = Some (ud_id urlData, req);
                           userAgent = or_empty (h_user_agent req)
                       in if detectBot userAgent
                          then (BotJson (ud_originalUrl urlData),
                                send (BotJson (ud_originalUrl urlData)) s3, click)
                          else if q_preview req = Some ''true''
                          then (Preview (ud_originalUrl urlData),
                                send (Preview (ud_originalUrl urlData)) s3, click)
                          else if truthy (ud_passwordHash urlData)
                          then (let providedPassword = or_else (q_password req) (h_x_url_password req)
                                in if \<not> truthy providedPassword
                                   then (PasswordRequired, send PasswordRequired s3, click)
                                   else case bcrypt_compare env (or_empty providedPassword)
                                               (or_empty (ud_passwordHash urlData)) of
                                          Inl e \<Rightarrow> (ServerError, send ServerError s3, click)
                                        | Inr isValidPassword \<Rightarrow>
                                            if \<not> isValidPassword
                                            then (PasswordRequired, send PasswordRequired s3, click)
                                            else (Redirect (ud_originalUrl urlData),
                                                  send (Redirect (ud_originalUrl urlData)) s3, click))
                          else (Redirect (ud_originalUrl urlData),
                                send (Redirect (ud_originalUrl urlData)) s3, click))"

text \<open>
  A whole resolution: the controller answers, then the promise of the started call settles.
  \<open>db_later\<close> says whether the database still answers at that time. (Where the controller
  itself awaits, at \<open>bcrypt.compare\<close>, the promise may settle before the answer is sent; the
  answer and the final state are the same.)
\<close>

definition resolve :: "env \<Rightarrow> timestamp \<Rightarrow> state \<Rightarrow> request \<Rightarrow> bool \<Rightarrow> response \<times> state" where
  "resolve env now s req db_later =
     (case handleRedirect env now s req of
        (res, s1, None) \<Rightarrow> (res, s1)
      | (res, s1, Some (urlId, r)) \<Rightarrow>
          (res, (snd (recordClick_await env now (s1\<lparr>db_up := db_up s1 \<and> db_later\<rparr>) urlId r))
                  \<lparr>db_up := db_up s1\<rparr>))"

section \<open>The route POST /api/urls\<close>

text \<open>
  The body of a request to create a URL; \<open>None\<close> is an absent property. The schema
  \<open>createUrlSchema\<close> of the route: a required URI with scheme http or https of at most 2048
  characters, an optional
  alias of 3 to 50 letters and digits, an optional title and description of at most 500 and
  1000 characters, an optional date after now, a boolean with default true. A Joi string
  is not empty. The result is the validated value, or \<open>None\<close> for a validation error.
\<close>

record create_body =
  b_originalUrl :: "string option"
  b_customAlias :: "string option"
  b_title :: "string option"
  b_description :: "string option"
  b_expiresAt :: "timestamp option"
  b_isPublic :: "bool option"

definition alphanum :: "string \<Rightarrow> bool" where
  \<comment> \<open>Joi's \<open>alphanum()\<close>: letters a-z, A-Z and digits only\<close>
  "alphanum t =
     list_all (\<lambda>c. let n = (of_char c :: nat)
                    in (97 \<le> n \<and> n \<le> 122) \<or> (65 \<le> n \<and> n \<le> 90) \<or> (48 \<le> n \<and> n \<le> 57)) t"

definition joi_string :: "nat \<Rightarrow> string option \<Rightarrow> bool" where
  \<comment> \<open>\<open>Joi.string().max(n).optional()\<close>\<close>
  "joi_string n v = (case v of None \<Rightarrow> True | Some t \<Rightarrow> t \<noteq> [] \<and> length t \<le> n)"

definition createUrlSchema :: "env \<Rightarrow> timestamp \<Rightarrow> create_body \<Rightarrow> create_body option" where
  "createUrlSchema env now body =
     (if (case b_originalUrl body of
            None \<Rightarrow> False
          | Some u \<Rightarrow> u \<noteq> [] \<and> joi_uri env u \<and> length u \<le> 2048)
         \<and> (case b_customAlias body of
               None \<Rightarrow> True
             | Some a \<Rightarrow> a \<noteq> [] \<and> alphanum a \<and> 3 \<le> length a \<and> length a \<le> 50)
         \<and> joi_string 500 (b_title body)
         \<and> joi_string 1000 (b_description body)
         \<and> (case b_expiresAt body of None \<Rightarrow> True | Some t \<Rightarrow> t > now)
      then Some (body\<lparr>b_isPublic := (case b_isPublic body of None \<Rightarrow> Some True | Some b \<Rightarrow> Some b)\<rparr>)
      else None)"

text \<open>
  The answer of the route: 201 with the new URL, or a status with a message. The error
  handler answers an AppError with its status code (503 when its message names Redis) and
  any other error with 500.
\<close>

datatype api_response = Created url_row | Failed nat string

definition errorHandler :: "exn \<Rightarrow> api_response" where
  "errorHandler err =
     (case err of
        AppError m c \<Rightarrow>
          if str_includes m ''Redis'' then Failed 503 ''Cache service temporarily unavailable''
          else Failed c m
      | _ \<Rightarrow> Failed 500 ''Something went wrong!'')"

definition post_urls ::
  "env \<Rightarrow> timestamp \<Rightarrow> state \<Rightarrow> string option \<Rightarrow> create_body \<Rightarrow> api_response \<times> state" where
  \<comment> \<open>the handler of the route, after its middleware; \<open>user\<close> is \<open>req.user?.id\<close>\<close>
  "post_urls env now s user body =
     (case createUrlSchema env now body of
        None \<Rightarrow> (Failed 400 ''Validation error'', s)
      | Some v \<Rightarrow>
          (case createUrl env now s
                  \<lparr>d_originalUrl = or_empty (b_originalUrl v),
                   d_customAlias = b_customAlias v,
                   d_userId = user,
                   d_title = b_title v,
                   d_description = b_description v,
                   d_expiresAt = b_expiresAt v,
                   d_isPublic = b_isPublic v\<rparr> of
             (Inl e, s1) \<Rightarrow> (errorHandler e, s1)
           | (Inr url, s1) \<Rightarrow> (Created url, s1)))"

section \<open>Example inputs\<close>

text \<open>
  A concrete environment, a concrete database server and concrete states, used to run the
  model: an empty store (\<open>state0\<close>), a store with one active link of the user alice under
  the alias \<open>my-link\<close> (\<open>state1\<close>), and variants of that link which are deactivated,
  protected by a password, or about to expire.
\<close>

definition id_u1 :: string where "id_u1 = ''11111111-1111-1111-1111-111111111111''"
definition id_alice :: string where "id_alice = ''aaaaaaaa-aaaa-aaaa-aaaa-aaaaaaaaaaaa''"
definition id_bob :: string where "id_bob = ''bbbbbbbb-bbbb-bbbb-bbbb-bbbbbbbbbbbb''"

definition env0 :: env where
  "env0 =
     \<lparr>production = False,
      URL_parse = (\<lambda>u. if starts_with ''https://'' u then Some (''https:'', ''example.com'') else None),
      joi_uri = starts_with ''https://'',
      enableGeolocation = True,
      enableUserAgentParsing = True,
      geoip_lookup = (\<lambda>ip. Inr None),
      useragent_parse = (\<lambda>ua. Inr (Some ''Firefox'', Some ''Linux'')),
      bcrypt_compare = (\<lambda>p h. Inr (h = ''hash:'' @ p)),
      nanoid = (\<lambda>n i. ''abc123''),
      uuid_generate_v4 = (\<lambda>n. ''cccccccc-cccc-cccc-cccc-cccccccccccc'')\<rparr>"

definition pg0 :: engine where
  "pg0 =
     \<lparr>bool_in = (\<lambda>t. if t = ''true'' then Some True else if t = ''false'' then Some False else None),
      timestamptz_in = (\<lambda>t. if t = ''2030-01-01T00:00:00.000+00:00'' then Some 1893456000000 else None),
      inet_in = (\<lambda>t. t = ''10.0.0.1'' \<or> t = ''203.0.113.7''),
      date_text = (\<lambda>d. ''2030-01-01T00:00:00.000+00:00'')\<rparr>"

definition state0 :: state where
  "state0 =
     \<lparr>db_up = True, db_queries = 0, pg = pg0, log = [], users = [id_alice, id_bob], urls = [],
      url_clicks = [], redis_up = True, kv = Map.empty, counters = Map.empty\<rparr>"

definition link0 :: url_row where
  "link0 =
     \<lparr>row_id = id_u1, user_id = Some id_alice, original_url = ''https://example.com'',
      short_code = ''my-link'', custom_alias = Some ''my-link'', title = None, description = None,
      is_active = Some True, is_public = Some True, password_hash = None, click_count = 0,
      created_at = 0, updated_at = 0, expires_at = None, last_accessed = None\<rparr>"

definition state1 :: state where
  "state1 = state0\<lparr>urls := [link0]\<rparr>"

definition state_inactive :: state where
  "state_inactive = state0\<lparr>urls := [link0\<lparr>is_active := Some False\<rparr>]\<rparr>"

definition state_protected :: state where
  "state_protected = state0\<lparr>urls := [link0\<lparr>password_hash := Some ''hash:secret''\<rparr>]\<rparr>"

definition state_expiring :: state where
  "state_expiring = state0\<lparr>urls := [link0\<lparr>expires_at := Some 2000\<rparr>]\<rparr>"

definition state_redis_down :: state where
  "state_redis_down = state1\<lparr>redis_up := False\<rparr>"

definition req0 :: request where
  "req0 =
     \<lparr>param_shortCode = ''my-link'', req_ip = Some ''10.0.0.1'', req_user = None,
      h_user_agent = Some ''Mozilla/5.0'', h_referer = None, h_referrer = None,
      q_preview = None, q_password = None, h_x_url_password = None\<rparr>"

definition req_preview :: request where
  "req_preview = req0\<lparr>q_preview := Some ''true''\<rparr>"

definition data0 :: create_data where
  "data0 =
     \<lparr>d_originalUrl = ''https://example.org'', d_customAlias = Some ''my-link'',
      d_userId = Some id_bob, d_title = None, d_description = None, d_expiresAt = None,
      d_isPublic = None\<rparr>"

definition body0 :: create_body where
  "body0 =
     \<lparr>b_originalUrl = Some ''https://example.org'', b_customAlias = Some ''my-custom-link'',
      b_title = None, b_description = None, b_expiresAt = None, b_isPublic = None\<rparr>"

section \<open>Unfolding the model\<close>

lemmas redis_defs = client_get_def redis_get_def redis_set_def redis_del_def redis_incr_def
  expired_def interp_def

lemmas uuid_defs = hex_digit_def uuid_in_def uuid_params_def owned_by_def toLowerCase_def
  toLowerCase_char_def

lemma uuid_in_examples:
  "uuid_in ''11111111-1111-1111-1111-111111111111'' = Some ''11111111111111111111111111111111''"
  "uuid_in ''aaaaaaaa-aaaa-aaaa-aaaa-aaaaaaaaaaaa'' = Some ''aaaaaaaaaaaaaaaaaaaaaaaaaaaaaaaa''"
  "uuid_in ''bbbbbbbb-bbbb-bbbb-bbbb-bbbbbbbbbbbb'' = Some ''bbbbbbbbbbbbbbbbbbbbbbbbbbbbbbbb''"
  "uuid_in ''cccccccc-cccc-cccc-cccc-cccccccccccc'' = Some ''cccccccccccccccccccccccccccccccc''"
  by code_simp+

lemmas uuid_eval = uuid_params_def owned_by_def uuid_in_examples

lemmas service_defs = query_def shortCodeLength_def select_alias_def select_code_def select_active_def
  generateShortCode_def rethrow_def customAliasMinLength_def customAliasMaxLength_def
  alias_regex_def alias_char_def validateUrl_def cache_key_def cacheUrl_def
  invalidateUrlCache_def url_check_def insert_url_def createUrl_def to_urlData_def
  getUrlByShortCode_def allowedUpdates_def param_text_def column_accepts_def set_column_def
  update_url_def updateUrl_def delete_url_def deleteUrl_def truthy_def or_else_def
  toLowerCase_def toLowerCase_char_def

lemmas redirect_defs = or_empty_def or_unknown_def detectDeviceType_def botPatterns_def
  detectBot_def fits_def insert_click_def req_get_referer_def recordClick_sync_def
  recordClick_insert_def recordClick_await_def recordClick_call_def recordClick_def
  redirectLimiter_def send_def handleRedirect_def resolve_def

lemmas route_defs = alphanum_def joi_string_def createUrlSchema_def errorHandler_def post_urls_def

lemmas example_defs = id_u1_def id_alice_def id_bob_def env0_def pg0_def state0_def link0_def
  state1_def state_inactive_def state_protected_def state_expiring_def state_redis_down_def
  req0_def req_preview_def data0_def body0_def

section \<open>What each operation leaves untouched\<close>

text \<open>A query on a database that answers runs its statement on the state with the counter bumped.\<close>

lemma query_up: "db_up s \<Longrightarrow> query stmt s =
   (case stmt (s\<lparr>db_queries := Suc (db_queries s)\<rparr>) of
      Inl e \<Rightarrow> (Inl e, s\<lparr>db_queries := Suc (db_queries s)\<rparr>)
    | Inr (rows, s2) \<Rightarrow> (Inr rows, s2))"
  by (simp add: query_def Let_def)

text \<open>The rate limiter only touches its counters; caching and invalidation only touch the cache.\<close>

lemma redis_incr_frame: "\<exists>c. snd (redis_incr now s k t) = s\<lparr>counters := c\<rparr>"
proof (cases "redis_up s")
  case False
  then have "snd (redis_incr now s k t) = s\<lparr>counters := counters s\<rparr>"
    by (simp add: redis_incr_def)
  then show ?thesis by blast
next
  case True
  then show ?thesis
    by (auto simp: redis_incr_def Let_def split: prod.splits option.splits)
qed

lemma redirectLimiter_frame: "\<exists>c. snd (redirectLimiter now s req) = s\<lparr>counters := c\<rparr>"
proof -
  define k1 where "k1 = (case req_user req of Some u \<Rightarrow> ''redirect:user:'' @ u
                       | None \<Rightarrow> ''redirect:ip:'' @ interp (req_ip req))"
  define k2 where "k2 = ''redirect:url:'' @ param_shortCode req @ '':'' @ interp (req_ip req)"
  obtain c1 where c1: "snd (redis_incr now s k1 3600) = s\<lparr>counters := c1\<rparr>"
    using redis_incr_frame by blast
  obtain c2 where c2: "snd (redis_incr now (s\<lparr>counters := c1\<rparr>) k2 60) = s\<lparr>counters := c1\<rparr>\<lparr>counters := c2\<rparr>"
    using redis_incr_frame by blast
  show ?thesis
    using c1 c2 unfolding redirectLimiter_def k1_def[symmetric] k2_def[symmetric] Let_def
    by (auto split: prod.splits if_splits)
qed

lemma redis_get_counters [simp]: "redis_get now (s\<lparr>counters := c\<rparr>) key = redis_get now s key"
  by (simp add: redis_get_def client_get_def)

lemma redis_get_db_queries [simp]: "redis_get now (s\<lparr>db_queries := n\<rparr>) key = redis_get now s key"
  by (simp add: redis_get_def client_get_def)

lemma redis_get_log [simp]: "redis_get now (s\<lparr>log := l\<rparr>) key = redis_get now s key"
  by (simp add: redis_get_def client_get_def)

lemma cacheUrl_frame:
  "\<exists>m. cacheUrl now s v = s\<lparr>kv := m\<rparr>"
proof (cases "redis_up s")
  case False
  then have "cacheUrl now s v = s\<lparr>kv := kv s\<rparr>"
    by (simp add: cacheUrl_def redis_set_def)
  then show ?thesis by blast
next
  case True
  then show ?thesis
    by (auto simp: cacheUrl_def redis_set_def)
qed

lemma invalidate_frame: "\<exists>m. invalidateUrlCache now s code = s\<lparr>kv := m\<rparr>"
proof (cases "redis_up s \<and> kv s (''url:'' @ code) \<noteq> None")
  case True
  then show ?thesis
    by (auto simp: invalidateUrlCache_def redis_del_def)
next
  case False
  then have "invalidateUrlCache now s code = s\<lparr>kv := kv s\<rparr>"
    by (auto simp: invalidateUrlCache_def redis_del_def split: option.splits)
  then show ?thesis by blast
qed

section \<open>Lookups that miss the cache\<close>


lemma redirectLimiter_state:
  obtains c where "snd (redirectLimiter now s req) = s\<lparr>counters := c\<rparr>"
  using redirectLimiter_frame by blast

lemma handleRedirect_not_limited:
  assumes "\<not> fst (redirectLimiter now s req)"
    and "snd (redirectLimiter now s req) = s1"
  shows "handleRedirect env now s req =
     (case getUrlByShortCode now s1 (param_shortCode req) of
                (Inl e, s2) \<Rightarrow> (ServerError, send ServerError s2, None)
              | (Inr None, s2) \<Rightarrow> (NotFound, send NotFound s2, None)
              | (Inr (Some (CachedRow r)), s2) \<Rightarrow> (Deactivated, send Deactivated s2, None)
              | (Inr (Some (CachedData urlData)), s2) \<Rightarrow>
                  if ud_isActive urlData \<noteq> Some True then (Deactivated, send Deactivated s2, None)
                  else let s3 = recordClick_call env s2 req;
                           click = Some (ud_id urlData, req);
                           userAgent = or_empty (h_user_agent req)
                       in if detectBot userAgent
                          then (BotJson (ud_originalUrl urlData),
                                send (BotJson (ud_originalUrl urlData)) s3, click)
                          else if q_preview req = Some ''true''
                          then (Preview (ud_originalUrl urlData),
                                send (Preview (ud_originalUrl urlData)) s3, click)
                          else if truthy (ud_passwordHash urlData)
                          then (let providedPassword = or_else (q_password req) (h_x_url_password req)
                                in if \<not> truthy providedPassword
                                   then (PasswordRequired, send PasswordRequired s3, click)
                                   else case bcrypt_compare env (or_empty providedPassword)
                                               (or_empty (ud_passwordHash urlData)) of
                                          Inl e \<Rightarrow> (ServerError, send ServerError s3, click)
                                        | Inr isValidPassword \<Rightarrow>
                                            if \<not> isValidPassword
                                            then (PasswordRequired, send PasswordRequired s3, click)
                                            else (Redirect (ud_originalUrl urlData),
                                                  send (Redirect (ud_originalUrl urlData)) s3, click))
                          else (Redirect (ud_originalUrl urlData),
                                send (Redirect (ud_originalUrl urlData)) s3, click))"
proof -
  have "redirectLimiter now s req = (False, s1)"
    using assms by (cases "redirectLimiter now s req") simp
  then show ?thesis
    by (simp add: handleRedirect_def)
qed

lemma handleRedirect_limited:
  assumes "fst (redirectLimiter now s req)"
  shows "handleRedirect env now s req
           = (RateLimited, send RateLimited (snd (redirectLimiter now s req)), None)"
proof -
  obtain s1 where "redirectLimiter now s req = (True, s1)"
    using assms by (cases "redirectLimiter now s req") simp
  then show ?thesis
    by (simp add: handleRedirect_def)
qed






lemma getUrl_clicks: "url_clicks (snd (getUrlByShortCode now s code)) = url_clicks s"
proof -
  have c: "\<And>t v. url_clicks (cacheUrl now t v) = url_clicks t"
  proof -
    fix t v
    obtain m where "cacheUrl now t v = t\<lparr>kv := m\<rparr>" using cacheUrl_frame by blast
    then show "url_clicks (cacheUrl now t v) = url_clicks t" by simp
  qed
  show ?thesis
    by (simp add: getUrlByShortCode_def query_def select_active_def Let_def c
        split: option.splits list.splits)
qed

lemma handleRedirect_clicks: "url_clicks (fst (snd (handleRedirect env now s req))) = url_clicks s"
proof -
  obtain c where c: "snd (redirectLimiter now s req) = s\<lparr>counters := c\<rparr>"
    by (rule redirectLimiter_state)
  show ?thesis
  proof (cases "fst (redirectLimiter now s req)")
    case True
    then show ?thesis using handleRedirect_limited[OF True, of env] c by (simp add: send_def)
  next
    case False
    have "url_clicks (snd (getUrlByShortCode now (s\<lparr>counters := c\<rparr>) (param_shortCode req))) = url_clicks s"
      by (simp add: getUrl_clicks)
    then show ?thesis
      using handleRedirect_not_limited[OF False c, of env]
      by (auto simp: Let_def send_def recordClick_call_def
          split: prod.splits sum.splits option.splits cached.splits)
  qed
qed




section \<open>Updates and deletions\<close>

lemma owned_by_params: "owned_by urlId userId r \<Longrightarrow> uuid_params urlId userId"
  by (auto simp: owned_by_def uuid_params_def split: option.splits)

lemma deleteUrl_not_owner:
  assumes up: "db_up s" and ids: "uuid_params urlId userId"
    and notowner: "\<forall>r \<in> set (urls s). \<not> owned_by urlId userId r"
  shows "deleteUrl now s urlId userId =
           (Inl (AppError ''URL not found or access denied'' 404), s\<lparr>db_queries := Suc (db_queries s)\<rparr>)"
proof -
  have f: "filter (owned_by urlId userId) (urls s) = []"
    using notowner by (simp add: filter_empty_conv)
  have g: "filter (\<lambda>r. \<not> owned_by urlId userId r) (urls s) = urls s"
    using notowner by (simp add: filter_id_conv)
  show ?thesis
    using up ids by (simp add: deleteUrl_def query_up delete_url_def f g rethrow_def Let_def)
qed

lemma updateUrl_not_owner:
  assumes up: "db_up s" and ids: "uuid_params urlId userId"
    and notowner: "\<forall>r \<in> set (urls s). \<not> owned_by urlId userId r"
    and keys: "distinct (map fst updates)"
    and vals: "\<forall>(k, v) \<in> set updates. k \<in> set allowedUpdates \<longrightarrow> column_accepts (pg s) k v"
  shows "updateUrl now s urlId userId updates =
           (if filter (\<lambda>(k, v). k \<in> set allowedUpdates) updates = []
            then (Inl (AppError ''No valid fields to update'' 400), s)
            else (Inl (AppError ''URL not found or access denied'' 404),
                  s\<lparr>db_queries := Suc (db_queries s)\<rparr>))"
proof -
  let ?fs = "filter (\<lambda>(k, v). k \<in> set allowedUpdates) updates"
  have f: "filter (owned_by urlId userId) (urls s) = []"
    using notowner by (simp add: filter_empty_conv)
  have g: "\<And>f. map (\<lambda>r. if owned_by urlId userId r then f r else r) (urls s) = urls s"
    using notowner by (simp add: map_idI)
  have d: "distinct (map fst ?fs)"
    using keys by (simp add: distinct_map_filter)
  have a: "list_all (\<lambda>(k, v). column_accepts (pg s) k v) ?fs"
    using vals by (auto simp: list_all_iff)
  show ?thesis
    using up ids d a by (simp add: updateUrl_def query_up update_url_def f g rethrow_def Let_def)
qed

lemma generateShortCode_alias:
  assumes "db_up s" and "a \<noteq> []"
  shows "generateShortCode nano s (Some a) n =
     (if length a < 3 \<or> 50 < length a
      then (Inl (AppError ''Custom alias must be between 3 and 50 characters'' 400), s)
      else if \<not> list_all alias_char a
      then (Inl (AppError ''Custom alias can only contain letters, numbers, hyphens, and underscores'' 400), s)
      else if \<exists>r \<in> set (urls s). short_code r = a \<or> custom_alias r = Some a
      then (Inl (AppError ''Custom alias is already taken'' 409), s\<lparr>db_queries := Suc (db_queries s)\<rparr>)
      else (Inr a, s\<lparr>db_queries := Suc (db_queries s)\<rparr>))"
  using assms
  by (auto simp: generateShortCode_def rethrow_def customAliasMinLength_def customAliasMaxLength_def
      alias_regex_def query_up select_alias_def filter_empty_conv)

lemma deleteUrl_owner:
  assumes up: "db_up s" and row: "r \<in> set (urls s)" "owned_by urlId userId r"
  shows "\<exists>m. deleteUrl now s urlId userId =
           (Inr True,
            s\<lparr>db_queries := Suc (db_queries s),
              urls := filter (\<lambda>r. \<not> owned_by urlId userId r) (urls s),
              url_clicks := filter (\<lambda>c. url_id c \<notin> set (map row_id (filter (owned_by urlId userId) (urls s))))
                              (url_clicks s),
              kv := m\<rparr>)"
proof -
  let ?gone = "filter (owned_by urlId userId) (urls s)"
  let ?s1 = "s\<lparr>db_queries := Suc (db_queries s),
              urls := filter (\<lambda>r. \<not> owned_by urlId userId r) (urls s),
              url_clicks := filter (\<lambda>c. url_id c \<notin> set (map row_id ?gone)) (url_clicks s)\<rparr>"
  have ids: "uuid_params urlId userId"
    using row(2) by (rule owned_by_params)
  have "r \<in> set ?gone" using row by simp
  then obtain g gs where g: "?gone = g # gs"
    by (cases ?gone) auto
  obtain m where m: "invalidateUrlCache now ?s1 (short_code g) = ?s1\<lparr>kv := m\<rparr>"
    using invalidate_frame by blast
  have "deleteUrl now s urlId userId = (Inr True, ?s1\<lparr>kv := m\<rparr>)"
    using up ids g m by (simp add: deleteUrl_def query_up delete_url_def rethrow_def Let_def)
  then show ?thesis by (intro exI[of _ m]) simp
qed

section \<open>The table keeps its codes unique\<close>

text \<open>
  The schema makes short codes unique. createUrl is the only operation that writes the
  columns \<open>short_code\<close> and \<open>custom_alias\<close>: the row it inserts has a short code that is
  new in the table, and its custom alias is absent or equal to its short code (an empty alias
  would draw a random code, and the check on the length of \<open>custom_alias\<close> then rejects the
  row). updateUrl changes neither column.
\<close>

lemma random_code_frame: "\<exists>q. snd (random_code nano i k s) = s\<lparr>db_queries := q\<rparr>"
proof (induction k arbitrary: i s)
  case 0
  have "snd (random_code nano i 0 s) = s\<lparr>db_queries := db_queries s\<rparr>" by simp
  then show ?case by blast
next
  case (Suc k)
  let ?s1 = "s\<lparr>db_queries := Suc (db_queries s)\<rparr>"
  obtain q where q: "snd (random_code nano (Suc i) k ?s1) = ?s1\<lparr>db_queries := q\<rparr>"
    using Suc.IH by blast
  show ?case
  proof (cases "db_up s \<and> filter (\<lambda>r. short_code r = nano shortCodeLength i) (urls s) \<noteq> []")
    case True
    then have "snd (random_code nano i (Suc k) s) = s\<lparr>db_queries := q\<rparr>"
      using q by (simp add: query_def select_code_def Let_def)
    then show ?thesis by blast
  next
    case False
    then have "snd (random_code nano i (Suc k) s) = s\<lparr>db_queries := Suc (db_queries s)\<rparr>"
      by (auto simp: query_def select_code_def Let_def)
    then show ?thesis by blast
  qed
qed

lemma generateShortCode_frame: "\<exists>q. snd (generateShortCode nano s a n) = s\<lparr>db_queries := q\<rparr>"
proof -
  have r: "\<And>x. snd (rethrow ''Failed to generate short code'' x) = snd x"
    by (auto simp: rethrow_def split: prod.splits sum.splits exn.splits)
  obtain q where q: "snd (random_code nano 0 n s) = s\<lparr>db_queries := q\<rparr>"
    using random_code_frame by blast
  have same: "s = s\<lparr>db_queries := db_queries s\<rparr>" by simp
  show ?thesis
    unfolding generateShortCode_def r
    using q same
    by (auto simp: query_def select_alias_def Let_def split: option.splits intro: exI[of _ "Suc (db_queries s)"] exI[of _ "db_queries s"])
qed

lemma createUrl_alias_invariant:
  assumes ok: "createUrl env now s data = (Inr new, s')"
  shows "custom_alias new = None \<or> custom_alias new = Some (short_code new)"
proof (cases "d_customAlias data")
  case None
  then show ?thesis
    using ok
    by (auto simp: createUrl_def rethrow_def query_def insert_url_def Let_def
        split: sum.splits prod.splits exn.splits list.splits if_splits)
next
  case (Some a)
  show ?thesis
  proof (cases "a = []")
    case True
    then show ?thesis
      using ok Some
      by (auto simp: createUrl_def rethrow_def query_def insert_url_def Let_def
        split: sum.splits prod.splits exn.splits list.splits if_splits)
  next
    case False
    have "\<And>c t. generateShortCode (nanoid env) s (Some a) 5 = (Inr c, t) \<Longrightarrow> c = a"
      using False
      by (auto simp: generateShortCode_def rethrow_def query_def Let_def
        split: sum.splits prod.splits exn.splits list.splits if_splits)
    then show ?thesis
      using ok Some
      by (auto simp: createUrl_def rethrow_def query_def insert_url_def Let_def
        split: sum.splits prod.splits exn.splits list.splits if_splits)
  qed
qed


lemma cacheUrl_urls: "urls (cacheUrl now s v) = urls s"
  by (simp add: cacheUrl_def redis_set_def)

lemma createUrl_table:
  assumes ok: "createUrl env now s data = (Inr new, s')"
  shows "urls s' = urls s @ [new] \<and> short_code new \<notin> set (map short_code (urls s))"
proof -
  obtain q where q: "snd (generateShortCode (nanoid env) s (d_customAlias data) 5) = s\<lparr>db_queries := q\<rparr>"
    using generateShortCode_frame by blast
  obtain g where g: "generateShortCode (nanoid env) s (d_customAlias data) 5 = (g, s\<lparr>db_queries := q\<rparr>)"
    using q by (cases "generateShortCode (nanoid env) s (d_customAlias data) 5") simp
  show ?thesis
    using ok g
    by (auto simp: createUrl_def rethrow_def query_def insert_url_def Let_def cacheUrl_urls
        split: sum.splits prod.splits exn.splits list.splits if_splits)
qed

lemma createUrl_keeps_invariant:
  assumes ok: "createUrl env now s data = (Inr new, s')"
    and uniq: "distinct (map short_code (urls s))"
    and inv: "\<forall>r \<in> set (urls s). custom_alias r = None \<or> custom_alias r = Some (short_code r)"
  shows "distinct (map short_code (urls s'))
       \<and> (\<forall>r \<in> set (urls s'). custom_alias r = None \<or> custom_alias r = Some (short_code r))"
  using createUrl_table[OF ok] createUrl_alias_invariant[OF ok] uniq inv by auto


lemma fold_set_column_codes:
  "short_code (fold (\<lambda>(k, v). set_column e k v) fs r) = short_code r
   \<and> custom_alias (fold (\<lambda>(k, v). set_column e k v) fs r) = custom_alias r"
  by (induction fs arbitrary: r) (auto simp: set_column_def)

lemma invalidate_urls: "urls (invalidateUrlCache now s c) = urls s"
  by (simp add: invalidateUrlCache_def redis_del_def split: option.splits)

lemma updateUrl_keeps_codes:
  "map short_code (urls (snd (updateUrl now s urlId userId updates))) = map short_code (urls s)
   \<and> map custom_alias (urls (snd (updateUrl now s urlId userId updates))) = map custom_alias (urls s)"
proof -
  have r: "\<And>x. snd (rethrow ''Failed to update URL'' x) = snd x"
    by (auto simp: rethrow_def split: prod.splits sum.splits exn.splits)
  show ?thesis
    unfolding updateUrl_def r
    by (auto simp: query_def update_url_def Let_def invalidate_urls fold_set_column_codes
        split: list.splits)
qed

section \<open>Claims\<close>

subsection \<open>C1: the password gate\<close>

text \<open>
  C1 says that a link with a password hash answers PasswordRequired unless the right password
  is supplied. The controller has the gate, but it reads \<open>urlData.passwordHash\<close>, and the
  object that getUrlByShortCode builds from the row does not carry the hash. On the link of
  \<open>state_protected\<close>, whose row has a password hash, a request without any password is
  redirected.
\<close>

theorem C1_password_hash_not_read:
  "fst (resolve env0 1000 state_protected req0 True) = Redirect ''https://example.com''"
  by (simp add: redis_defs service_defs uuid_eval redirect_defs example_defs Let_def)

subsection \<open>C2: links that are deactivated or expired\<close>

text \<open>
  C2 says that a link which exists but is deactivated or expired gets a dedicated outcome,
  distinct from NotFound, and never a redirect. The controller has the dedicated answer (410
  for a link that is not active), but getUrlByShortCode selects only active rows, so the
  deactivated link of \<open>state_inactive\<close> gets NotFound, the answer for a code that never
  existed (\<open>state0\<close> has no link). The link of \<open>state_expiring\<close> expires at 2000: read from
  the store at 3000 it gets NotFound as well, and once it has been read into the cache while it
  was live (a resolution at 1000), it is answered from the cache and still redirected at 3000.
\<close>

theorem C2_unresolvable_link_answers:
  "fst (resolve env0 1000 state_inactive req0 True) = NotFound
   \<and> fst (resolve env0 1000 state0 req0 True) = NotFound
   \<and> fst (resolve env0 3000 state_expiring req0 True) = NotFound
   \<and> fst (resolve env0 3000 (snd (resolve env0 1000 state_expiring req0 True)) req0 True)
       = Redirect ''https://example.com''"
  by (simp add: redis_defs service_defs uuid_eval redirect_defs example_defs Let_def)

subsection \<open>C3: deactivating a link through an update\<close>

text \<open>
  C3 says that an update by the owner with \<open>isActive = false\<close> (likewise \<open>isPublic\<close>,
  \<open>expiresAt\<close>) changes the stored link, so that the next resolution no longer redirects.
  The route passes the properties under these names, and the list of allowed updates of
  updateUrl holds the names of the columns (\<open>is_active\<close>, \<open>is_public\<close>,
  \<open>expires_at\<close>). A patch with only these properties is refused with status 400 and the
  state is unchanged; next to a title, \<open>isActive\<close> is dropped, the link stays active and
  still redirects.
\<close>

theorem C3_camel_case_patch_ignored:
  "updateUrl 1000 state1 id_u1 (Some id_alice)
       [(''isActive'', JBoolean False), (''isPublic'', JBoolean False), (''expiresAt'', JDate 5000)]
     = (Inl (AppError ''No valid fields to update'' 400), state1)
   \<and> map is_active (urls (snd (updateUrl 1000 state1 id_u1 (Some id_alice)
         [(''title'', JString ''t''), (''isActive'', JBoolean False)]))) = [Some True]
   \<and> fst (resolve env0 2000 (snd (updateUrl 1000 state1 id_u1 (Some id_alice)
         [(''title'', JString ''t''), (''isActive'', JBoolean False)])) req0 True)
       = Redirect ''https://example.com''"
  by (simp add: redis_defs service_defs uuid_eval redirect_defs example_defs Let_def)

subsection \<open>C4: repeated lookups of a code that matches no link\<close>




subsection \<open>C5: custom aliases\<close>

text \<open>
  C5 says that aliases of 3 to 50 characters over \<open>[A-Za-z0-9_-]\<close> are accepted and returned
  as the short code. generateShortCode does so, but every alias reaches it through the route,
  whose schema asks for letters and digits only: the request of \<open>body0\<close>, with the alias
  \<open>my-custom-link\<close>, is refused with status 400 and no link is made (the same request
  with the alias \<open>mycustomlink\<close> makes the link), although generateShortCode returns the
  alias \<open>my-custom-link\<close> as the short code.
\<close>

theorem C5_hyphen_alias_refused_by_route:
  "fst (post_urls env0 1000 state0 (Some id_alice) body0) = Failed 400 ''Validation error''
   \<and> urls (snd (post_urls env0 1000 state0 (Some id_alice) body0)) = []
   \<and> (case fst (post_urls env0 1000 state0 (Some id_alice)
                    (body0\<lparr>b_customAlias := Some ''mycustomlink''\<rparr>)) of
         Created r \<Rightarrow> short_code r = ''mycustomlink''
       | Failed c m \<Rightarrow> False)
   \<and> fst (generateShortCode (nanoid env0) state0 (b_customAlias body0) 5) = Inr ''my-custom-link''"
  by (simp add: redis_defs service_defs uuid_eval route_defs or_empty_def example_defs Let_def)

subsection \<open>C6: recording a click and the redirect\<close>




subsection \<open>C7: a failing cache\<close>



subsection \<open>C8: when a click is recorded\<close>

text \<open>
  C8, as amended: a resolution that ends in NotFound, in the answer 410 for a deactivated
  link, or in RateLimited starts no recording and persists no click; the controller starts
  the recording as soon as it has found an active link, before it looks at bots, previews and
  passwords, so every resolution that ends in a redirect, a preview, the JSON answer for bots
  or PasswordRequired has started it.
\<close>

theorem C8_click_dispatch:
  "((fst (handleRedirect env now s req) = NotFound \<or> fst (handleRedirect env now s req) = Deactivated
       \<or> fst (handleRedirect env now s req) = RateLimited)
      \<longrightarrow> snd (snd (handleRedirect env now s req)) = None
          \<and> url_clicks (snd (resolve env now s req dl)) = url_clicks s)
   \<and> ((\<exists>u. fst (handleRedirect env now s req) = Redirect u \<or> fst (handleRedirect env now s req) = Preview u
            \<or> fst (handleRedirect env now s req) = BotJson u)
        \<or> fst (handleRedirect env now s req) = PasswordRequired
      \<longrightarrow> (\<exists>urlId. snd (snd (handleRedirect env now s req)) = Some (urlId, req)))"
proof -
  have none: "snd (snd (handleRedirect env now s req)) = None \<Longrightarrow>
              url_clicks (snd (resolve env now s req dl)) = url_clicks s"
  proof -
    assume n: "snd (snd (handleRedirect env now s req)) = None"
    obtain res s1 t where h: "handleRedirect env now s req = (res, s1, t)"
      by (cases "handleRedirect env now s req") auto
    show ?thesis
      using handleRedirect_clicks[of env now s req] n h by (simp add: resolve_def)
  qed
  have task: "(fst (handleRedirect env now s req) = NotFound \<or> fst (handleRedirect env now s req) = Deactivated
       \<or> fst (handleRedirect env now s req) = RateLimited
      \<longrightarrow> snd (snd (handleRedirect env now s req)) = None)
    \<and> ((\<exists>u. fst (handleRedirect env now s req) = Redirect u \<or> fst (handleRedirect env now s req) = Preview u
            \<or> fst (handleRedirect env now s req) = BotJson u)
        \<or> fst (handleRedirect env now s req) = PasswordRequired
      \<longrightarrow> (\<exists>urlId. snd (snd (handleRedirect env now s req)) = Some (urlId, req)))"
    by (simp add: handleRedirect_def Let_def split: prod.splits sum.splits option.splits cached.splits)
  show ?thesis
  proof (intro conjI impI)
    assume a: "fst (handleRedirect env now s req) = NotFound \<or> fst (handleRedirect env now s req) = Deactivated
       \<or> fst (handleRedirect env now s req) = RateLimited"
    then show "snd (snd (handleRedirect env now s req)) = None" using task by simp
    then show "url_clicks (snd (resolve env now s req dl)) = url_clicks s" by (rule none)
  next
    assume "(\<exists>u. fst (handleRedirect env now s req) = Redirect u \<or> fst (handleRedirect env now s req) = Preview u
            \<or> fst (handleRedirect env now s req) = BotJson u)
        \<or> fst (handleRedirect env now s req) = PasswordRequired"
    then show "\<exists>urlId. snd (snd (handleRedirect env now s req)) = Some (urlId, req)"
      using task by simp
  qed
qed

text \<open>The theorem on a code that matches no link and on the link of \<open>state1\<close>.\<close>

theorem C8_click_dispatch_witness:
  "fst (handleRedirect env0 1000 state0 req0) = NotFound
   \<and> snd (snd (handleRedirect env0 1000 state0 req0)) = None
   \<and> url_clicks (snd (resolve env0 1000 state0 req0 True)) = url_clicks state0
   \<and> fst (handleRedirect env0 1000 state1 req0) = Redirect ''https://example.com''
   \<and> (\<exists>urlId. snd (snd (handleRedirect env0 1000 state1 req0)) = Some (urlId, req0))"
proof -
  have 1: "fst (handleRedirect env0 1000 state0 req0) = NotFound"
    by (simp add: redis_defs service_defs uuid_eval redirect_defs example_defs Let_def)
  have 2: "fst (handleRedirect env0 1000 state1 req0) = Redirect ''https://example.com''"
    by (simp add: redis_defs service_defs uuid_eval redirect_defs example_defs Let_def)
  show ?thesis
    using C8_click_dispatch[of env0 1000 state0 req0 True] C8_click_dispatch[of env0 1000 state1 req0 True] 1 2
    by simp
qed

text \<open>
  C8 as stated says that a resolution ending in Preview persists no click. The preview of the
  link of \<open>state1\<close> leaves a click of that link in the table.
\<close>

theorem C8_preview_counterexample:
  "fst (resolve env0 1000 state1 req_preview True) = Preview ''https://example.com''
   \<and> map url_id (url_clicks (snd (resolve env0 1000 state1 req_preview True))) = [id_u1]"
  by (simp add: redis_defs service_defs uuid_eval redirect_defs example_defs Let_def)

subsection \<open>C9: updates and deletions by a caller who is not the owner\<close>

text \<open>
  C9, as amended: let the id be a UUID, let no link with this id belong to the caller (the
  link belongs to someone else, or does not exist), and let the database answer. Then
  deleteUrl fails with status 404 and the table is unchanged; so does updateUrl on a patch
  that sets the title or the description, possibly with other properties (the patch being an
  object whose values the columns take). updateUrl on the empty patch fails with the
  validation error 400 before it reads the store, for every caller.
\<close>

theorem C9_not_owner:
  assumes up: "db_up s" and ids: "uuid_params urlId userId"
    and notowner: "\<forall>r \<in> set (urls s). \<not> owned_by urlId userId r"
    and keys: "distinct (map fst updates)"
    and vals: "\<forall>(k, v) \<in> set updates. k \<in> set allowedUpdates \<longrightarrow> column_accepts (pg s) k v"
    and named: "''title'' \<in> fst ` set updates \<or> ''description'' \<in> fst ` set updates"
  shows "fst (deleteUrl now s urlId userId) = Inl (AppError ''URL not found or access denied'' 404)
       \<and> urls (snd (deleteUrl now s urlId userId)) = urls s
       \<and> fst (updateUrl now s urlId userId updates)
           = Inl (AppError ''URL not found or access denied'' 404)
       \<and> urls (snd (updateUrl now s urlId userId updates)) = urls s
       \<and> updateUrl now s urlId userId [] = (Inl (AppError ''No valid fields to update'' 400), s)"
proof -
  from named obtain p where p: "p \<in> set updates" "fst p = ''title'' \<or> fst p = ''description''"
    by auto
  from p(2) have "fst p \<in> set allowedUpdates"
    by (auto simp: allowedUpdates_def)
  then have "(\<lambda>(k, v). k \<in> set allowedUpdates) p"
    by (simp add: case_prod_beta)
  with p(1) have ne: "filter (\<lambda>(k, v). k \<in> set allowedUpdates) updates \<noteq> []"
    unfolding filter_empty_conv by blast
  have empty: "updateUrl now s urlId userId [] = (Inl (AppError ''No valid fields to update'' 400), s)"
    by (simp add: updateUrl_def rethrow_def)
  show ?thesis
    using deleteUrl_not_owner[OF up ids notowner, of now]
      updateUrl_not_owner[OF up ids notowner keys vals, of now] ne empty
    by simp
qed

text \<open>The theorem for bob on the link of alice.\<close>

theorem C9_not_owner_witness:
  "db_up state1 \<and> uuid_params id_u1 (Some id_bob)
   \<and> urls state1 = [link0] \<and> \<not> owned_by id_u1 (Some id_bob) link0
   \<and> distinct (map fst [(''title'', JString ''x''), (''isActive'', JBoolean False)])
   \<and> column_accepts (pg state1) ''title'' (JString ''x'')
   \<and> fst (deleteUrl 1000 state1 id_u1 (Some id_bob)) = Inl (AppError ''URL not found or access denied'' 404)
   \<and> urls (snd (deleteUrl 1000 state1 id_u1 (Some id_bob))) = urls state1
   \<and> fst (updateUrl 1000 state1 id_u1 (Some id_bob) [(''title'', JString ''x''), (''isActive'', JBoolean False)])
       = Inl (AppError ''URL not found or access denied'' 404)
   \<and> urls (snd (updateUrl 1000 state1 id_u1 (Some id_bob)
                   [(''title'', JString ''x''), (''isActive'', JBoolean False)])) = urls state1"
proof -
  let ?patch = "[(''title'', JString ''x''), (''isActive'', JBoolean False)]"
  have 1: "db_up state1" by (simp add: example_defs)
  have 2: "uuid_params id_u1 (Some id_bob)" by (simp add: example_defs uuid_eval)
  have 3: "\<forall>r \<in> set (urls state1). \<not> owned_by id_u1 (Some id_bob) r"
    by (simp add: example_defs uuid_eval)
  have 4: "distinct (map fst ?patch)" by simp
  have 5: "\<forall>(k, v) \<in> set ?patch. k \<in> set allowedUpdates \<longrightarrow> column_accepts (pg state1) k v"
    by (simp add: column_accepts_def param_text_def allowedUpdates_def)
  have 6: "''title'' \<in> fst ` set ?patch \<or> ''description'' \<in> fst ` set ?patch" by simp
  have 7: "urls state1 = [link0]" "\<not> owned_by id_u1 (Some id_bob) link0"
    "column_accepts (pg state1) ''title'' (JString ''x'')"
    by (simp_all add: example_defs uuid_eval column_accepts_def param_text_def)
  show ?thesis
    using C9_not_owner[OF 1 2 3 4 5 6, of 1000] 1 2 4 7 by simp
qed

text \<open>
  C9 as stated says that every update by a caller who is not the owner fails with NotFound.
  With the empty patch, which the schema of the route lets through, bob gets status 400 on
  the link of alice.
\<close>

theorem C9_empty_patch_counterexample:
  "fst (updateUrl 1000 state1 id_u1 (Some id_bob) [])
     = Inl (AppError ''No valid fields to update'' 400)"
  by (simp add: service_defs uuid_eval example_defs Let_def)

subsection \<open>C10: a deleted code can be used again\<close>

text \<open>
  C10: let deleteUrl succeed, and let \<open>r\<close> be a row that it deletes, in a table where short
  codes are unique and a custom alias, if set, is the short code of its row (what createUrl
  inserts), the short code of \<open>r\<close> having the form of an alias. Then \<open>r\<close> is no longer
  in the table, no remaining row has its code as short code or custom alias, generateShortCode
  returns that code when it is given as custom alias, and createUrl with that custom alias
  succeeds and inserts a row under it (for a URL that passes validateUrl and the check of the
  schema, a title that fits, a known user and a fresh UUID).
\<close>

theorem C10_code_freed:
  assumes deleted: "fst (deleteUrl now s urlId userId) = Inr True"
    and row: "r \<in> set (urls s)" "owned_by urlId userId r"
    and uniq: "distinct (map short_code (urls s))"
    and inv: "\<forall>r' \<in> set (urls s). custom_alias r' = None \<or> custom_alias r' = Some (short_code r')"
    and fmt: "3 \<le> length (short_code r)" "length (short_code r) \<le> 50" "list_all alias_char (short_code r)"
    and data: "d_customAlias data = Some (short_code r)"
    and url: "validateUrl env (d_originalUrl data) = Inr True" "url_check (d_originalUrl data)"
    and ttl: "fits 500 (d_title data)"
    and user: "case d_userId data of None \<Rightarrow> True | Some u \<Rightarrow> u \<in> set (users s)"
    and fresh: "\<forall>n. uuid_generate_v4 env n \<notin> set (map row_id (urls s))"
  shows "r \<notin> set (urls (snd (deleteUrl now s urlId userId)))
       \<and> (\<forall>r' \<in> set (urls (snd (deleteUrl now s urlId userId))).
             short_code r' \<noteq> short_code r \<and> custom_alias r' \<noteq> Some (short_code r))
       \<and> fst (generateShortCode nano (snd (deleteUrl now s urlId userId)) (Some (short_code r)) n)
           = Inr (short_code r)
       \<and> (\<exists>new. fst (createUrl env now' (snd (deleteUrl now s urlId userId)) data) = Inr new
               \<and> short_code new = short_code r \<and> custom_alias new = Some (short_code r)
               \<and> new \<in> set (urls (snd (createUrl env now' (snd (deleteUrl now s urlId userId)) data))))"
proof -
  let ?a = "short_code r"
  have up: "db_up s"
  proof (rule ccontr)
    assume "\<not> db_up s"
    then have "fst (deleteUrl now s urlId userId) = Inl (AppError ''Failed to delete URL'' 500)"
      by (simp add: deleteUrl_def query_def rethrow_def Let_def)
    then show False using deleted by simp
  qed
  obtain m where d: "deleteUrl now s urlId userId =
           (Inr True,
            s\<lparr>db_queries := Suc (db_queries s),
              urls := filter (\<lambda>r. \<not> owned_by urlId userId r) (urls s),
              url_clicks := filter (\<lambda>c. url_id c \<notin> set (map row_id (filter (owned_by urlId userId) (urls s))))
                              (url_clicks s),
              kv := m\<rparr>)"
    using deleteUrl_owner[OF up row] by blast
  define s' where "s' = snd (deleteUrl now s urlId userId)"
  have urls': "urls s' = filter (\<lambda>r. \<not> owned_by urlId userId r) (urls s)"
    and up': "db_up s'" and users': "users s' = users s"
    using d up by (simp_all add: s'_def)
  have gone: "r \<notin> set (urls s')"
    using row urls' by simp
  have free: "\<forall>r' \<in> set (urls s'). short_code r' \<noteq> ?a \<and> custom_alias r' \<noteq> Some ?a"
  proof
    fix r' assume r': "r' \<in> set (urls s')"
    then have in_s: "r' \<in> set (urls s)" and ne: "r' \<noteq> r"
      using urls' row by auto
    have sc: "short_code r' \<noteq> ?a"
      using uniq in_s row(1) ne by (meson distinct_map inj_onD)
    moreover have "custom_alias r' \<noteq> Some ?a"
      using inv in_s sc by auto
    ultimately show "short_code r' \<noteq> ?a \<and> custom_alias r' \<noteq> Some ?a" by simp
  qed
  have ne: "?a \<noteq> []" using fmt(1) by auto
  have gen: "\<And>nano n. generateShortCode nano s' (Some ?a) n = (Inr ?a, s'\<lparr>db_queries := Suc (db_queries s')\<rparr>)"
    using generateShortCode_alias[OF up' ne] fmt free by auto
  have fresh': "uuid_generate_v4 env (Suc (db_queries s')) \<notin> row_id ` set (urls s')"
    using fresh urls' by auto
  have code_free: "?a \<notin> short_code ` set (urls s')"
    using free by auto
  have t: "fits 500 (or_else (d_title data) None)" "fits 500 (d_title data)"
    using ttl by (auto simp: or_else_def fits_def)
  have u: "case or_else (d_userId data) None of None \<Rightarrow> True | Some u \<Rightarrow> u \<in> set (users s')"
    using user users' by (auto simp: or_else_def split: option.splits)
  obtain new s'' where c: "createUrl env now' s' data = (Inr new, s'')"
      "short_code new = ?a" "custom_alias new = Some ?a" "new \<in> set (urls s'')"
  proof -
    let ?row = "\<lparr>row_id = uuid_generate_v4 env (Suc (db_queries s')),
                         user_id = or_else (d_userId data) None,
                         original_url = d_originalUrl data,
                         short_code = ?a,
                         custom_alias = Some ?a,
                         title = or_else (d_title data) None,
                         description = or_else (d_description data) None,
                         is_active = Some True,
                         is_public = (case d_isPublic data of None \<Rightarrow> Some True | Some b \<Rightarrow> Some b),
                         password_hash = None,
                         click_count = 0,
                         created_at = now',
                         updated_at = now',
                         expires_at = d_expiresAt data,
                         last_accessed = None\<rparr>"
    let ?s2 = "s'\<lparr>db_queries := Suc (Suc (db_queries s')), urls := urls s' @ [?row]\<rparr>"
    have td: "(if \<not> truthy (d_title data) \<or> \<not> truthy (d_description data)
                       then (or_else (d_title data) None, or_else (d_description data) None)
                       else (d_title data, d_description data))
              = (or_else (d_title data) None, or_else (d_description data) None)"
      by (simp add: or_else_def)
    have ins: "query (insert_url ?row) (s'\<lparr>db_queries := Suc (db_queries s')\<rparr>) = (Inr [?row], ?s2)"
      using up' fresh' code_free fmt t u url(2)
      by (simp add: query_up insert_url_def fits_def split: option.splits)
    obtain m' where m': "cacheUrl now' ?s2 (CachedRow ?row) = ?s2\<lparr>kv := m'\<rparr>"
      using cacheUrl_frame by blast
    have "createUrl env now' s' data = (Inr ?row, ?s2\<lparr>kv := m'\<rparr>)"
      unfolding createUrl_def td
      by (simp add: url(1) data gen ins m' rethrow_def)
    then show ?thesis
      using that[of ?row "?s2\<lparr>kv := m'\<rparr>"] by simp
  qed
  show ?thesis
    using gone free gen c unfolding s'_def by auto
qed

text \<open>The theorem for the link of alice: bob takes the alias after the deletion.\<close>

theorem C10_code_freed_witness:
  "fst (deleteUrl 1000 state1 id_u1 (Some id_alice)) = Inr True
   \<and> link0 \<in> set (urls state1) \<and> owned_by id_u1 (Some id_alice) link0
   \<and> urls (snd (deleteUrl 1000 state1 id_u1 (Some id_alice))) = []
   \<and> fst (generateShortCode (nanoid env0) (snd (deleteUrl 1000 state1 id_u1 (Some id_alice)))
            (Some ''my-link'') 5) = Inr ''my-link''
   \<and> (\<exists>new. fst (createUrl env0 2000 (snd (deleteUrl 1000 state1 id_u1 (Some id_alice))) data0) = Inr new
         \<and> short_code new = ''my-link'')"
proof -
  have 1: "fst (deleteUrl 1000 state1 id_u1 (Some id_alice)) = Inr True"
    by (simp add: redis_defs service_defs uuid_eval example_defs Let_def)
  have 2: "link0 \<in> set (urls state1)" by (simp add: example_defs)
  have 3: "owned_by id_u1 (Some id_alice) link0" by (simp add: example_defs uuid_eval)
  have 4: "distinct (map short_code (urls state1))" by (simp add: example_defs)
  have 5: "\<forall>r' \<in> set (urls state1). custom_alias r' = None \<or> custom_alias r' = Some (short_code r')"
    by (simp add: example_defs)
  have 6: "3 \<le> length (short_code link0)" "length (short_code link0) \<le> 50"
    "list_all alias_char (short_code link0)"
    by (simp_all add: example_defs alias_char_def)
  have 7: "d_customAlias data0 = Some (short_code link0)" by (simp add: example_defs)
  have 8: "validateUrl env0 (d_originalUrl data0) = Inr True" "url_check (d_originalUrl data0)"
    by (simp_all add: example_defs validateUrl_def url_check_def toLowerCase_def toLowerCase_char_def)
  have 9: "fits 500 (d_title data0)" by (simp add: example_defs fits_def)
  have 10: "case d_userId data0 of None \<Rightarrow> True | Some u \<Rightarrow> u \<in> set (users state1)"
    by (simp add: example_defs)
  have 11: "\<forall>n. uuid_generate_v4 env0 n \<notin> set (map row_id (urls state1))"
    by (simp add: example_defs)
  have 12: "urls (snd (deleteUrl 1000 state1 id_u1 (Some id_alice))) = []"
    by (simp add: redis_defs service_defs uuid_eval example_defs Let_def)
  have 13: "short_code link0 = ''my-link''" by (simp add: example_defs)
  show ?thesis
    using C10_code_freed[OF 1 2 3 4 5 6 7 8 9 10 11, of "nanoid env0" 5 2000] 1 2 3 12 13 by auto
qed

end
